theory Spec2Isabelle
  imports Complex_Main
begin

section \<open>JavaScript values, as far as \<open>services/geminiService.ts\<close> meets them\<close>

text \<open>
  The value \<open>JSON.parse\<close> hands back is null, a boolean, a number, a string, an array or
  an object; reading a property that is absent gives \<open>undefined\<close>. A number is a
  real: every finite double is one, and the only facts the service uses of a number are
  whether it is zero (truthiness) and, for the nutrition estimates, its sign. An object
  is the list of its own properties in insertion order; a string has one \<open>char\<close> per
  code unit.
\<close>

datatype jsval =
    JUndefined
  | JNull
  | JBool bool
  | JNumber real
  | JString string
  | JArray "jsval list"
  | JObject "(string \<times> jsval) list"

text \<open>
  What a \<open>throw\<close> or a rejected promise carries. \<open>Error v\<close> is \<open>new Error(v)\<close>:
  its message is \<open>v\<close> converted to a string, which is \<open>v\<close> itself when \<open>v\<close> is a
  string. \<open>SyntaxError\<close> is what \<open>JSON.parse\<close> throws, \<open>TypeError\<close> what a property
  read on \<open>null\<close> or \<open>undefined\<close> throws, and \<open>Rejected\<close> any other reason the
  SDK's promise is rejected with (network failure, non-2xx status), described by a string.
\<close>

datatype js_error =
    Error jsval
  | SyntaxError
  | TypeError
  | Rejected string

text \<open>ToBoolean, as \<open>if (x)\<close> and \<open>!x\<close> apply it.\<close>

fun truthy :: "jsval \<Rightarrow> bool" where
  "truthy JUndefined = False"
| "truthy JNull = False"
| "truthy (JBool b) = b"
| "truthy (JNumber n) = (n \<noteq> 0)"
| "truthy (JString s) = (s \<noteq> [])"
| "truthy (JArray xs) = True"
| "truthy (JObject kvs) = True"

text \<open>
  The property read \<open>result.k\<close>, for the three names the service reads (\<open>error\<close>,
  \<open>name\<close>, \<open>nutrition\<close>): none of them is defined on the prototype of an object, an
  array, a string, a number or a boolean, so only an own property of an object is found.
\<close>

fun get_prop :: "jsval \<Rightarrow> string \<Rightarrow> js_error + jsval" where
  "get_prop JUndefined k = Inl TypeError"
| "get_prop JNull k = Inl TypeError"
| "get_prop (JObject kvs) k = Inr (case map_of kvs k of None \<Rightarrow> JUndefined | Some v \<Rightarrow> v)"
| "get_prop v k = Inr JUndefined"

text \<open>\<open>String.prototype.trim\<close> on the white space and line terminators below \<open>0x100\<close>.\<close>

definition is_ws :: "char \<Rightarrow> bool" where
  "is_ws c = (c \<in> set [CHR 0x09, CHR 0x0A, CHR 0x0B, CHR 0x0C, CHR 0x0D, CHR 0x20, CHR 0xA0])"

definition trim :: "string \<Rightarrow> string" where
  "trim s = rev (dropWhile is_ws (rev (dropWhile is_ws s)))"

section \<open>The request and the remote endpoint\<close>

text \<open>
  The two prompts are template literals with no interpolation; they are named, not spelled
  out. The schemas keep their types and \<open>required\<close> lists, without the descriptions.
\<close>

datatype prompt = FoodPrompt | TipPrompt

datatype schema =
    SNumber
  | SString
  | SObject "(string \<times> schema) list" "string list"

definition nutritionSchema :: schema where
  "nutritionSchema =
     SObject [(''calories'', SNumber), (''protein'', SNumber), (''carbs'', SNumber), (''fat'', SNumber)]
             [''calories'', ''protein'', ''carbs'', ''fat'']"

definition foodDetectionSchema :: schema where
  "foodDetectionSchema =
     SObject [(''error'', SString), (''name'', SString), (''portionSize'', SString),
              (''nutrition'', nutritionSchema)]
             []"

datatype part = InlineData string string | TextPart prompt

datatype contents = Parts "part list" | Plain prompt

record config =
  responseMimeType :: string
  responseSchema :: schema

record request =
  model :: string
  contents :: contents
  config :: "config option"

text \<open>
  Of the SDK's response the service reads only \<open>response.text\<close>, and uses it as a
  string (\<open>.trim()\<close>, a \<open>Promise<string>\<close> result).
\<close>

record response =
  response_text :: string

definition model_name :: string where
  "model_name = ''gemini-2.5-flash''"

definition food_request :: "string \<Rightarrow> request" where
  "food_request base64Image =
     \<lparr>model = model_name,
      contents = Parts [InlineData ''image/jpeg'' base64Image, TextPart FoodPrompt],
      config = Some \<lparr>responseMimeType = ''application/json'',
                     responseSchema = foodDetectionSchema\<rparr>\<rparr>"

definition tip_request :: request where
  "tip_request = \<lparr>model = model_name, contents = Plain TipPrompt, config = None\<rparr>"

text \<open>
  The world outside the service: the requests that have reached the endpoint and the lines
  written with \<open>console.error\<close>. The endpoint itself is a parameter: from the requests
  seen so far and the new one, it rejects or responds.
\<close>

record world =
  requests :: "request list"
  console :: "(string \<times> js_error) list"

type_synonym endpoint = "request list \<Rightarrow> request \<Rightarrow> js_error + response"

type_synonym json_parse = "string \<Rightarrow> jsval option"

definition generateContent :: "endpoint \<Rightarrow> request \<Rightarrow> world \<Rightarrow> (js_error + response) \<times> world" where
  "generateContent ep req w = (ep (requests w) req, w\<lparr>requests := requests w @ [req]\<rparr>)"

definition console_error :: "string \<Rightarrow> js_error \<Rightarrow> world \<Rightarrow> world" where
  "console_error label e w = w\<lparr>console := console w @ [(label, e)]\<rparr>"

section \<open>estimateNutritionFromImage\<close>

definition could_not_identify :: string where
  "could_not_identify = ''Could not identify the food. Please try another photo.''"

definition failed_to_analyze :: string where
  "failed_to_analyze =
     ''Failed to analyze image. The food might not be recognized or there was a network issue.''"

text \<open>The two checks on the parsed value, in the order of the source.\<close>

definition check_result :: "jsval \<Rightarrow> js_error + jsval" where
  "check_result result =
     (case get_prop result ''error'' of
        Inl e \<Rightarrow> Inl e
      | Inr err \<Rightarrow>
          if truthy err then Inl (Error err)
          else (case get_prop result ''name'' of
                  Inl e \<Rightarrow> Inl e
                | Inr name \<Rightarrow>
                    if \<not> truthy name then Inl (Error (JString could_not_identify))
                    else (case get_prop result ''nutrition'' of
                            Inl e \<Rightarrow> Inl e
                          | Inr nutrition \<Rightarrow>
                              if \<not> truthy nutrition then Inl (Error (JString could_not_identify))
                              else Inr result)))"

text \<open>The body of the \<open>try\<close>; \<open>parse\<close> is \<open>JSON.parse\<close>, \<open>None\<close> where it throws.\<close>

definition estimate_try ::
  "endpoint \<Rightarrow> json_parse \<Rightarrow> string \<Rightarrow> world \<Rightarrow> (js_error + jsval) \<times> world" where
  "estimate_try ep parse base64Image w =
     (case generateContent ep (food_request base64Image) w of
        (Inl e, w1) \<Rightarrow> (Inl e, w1)
      | (Inr resp, w1) \<Rightarrow>
          (let jsonString = trim (response_text resp) in
           case parse jsonString of
             None \<Rightarrow> (Inl SyntaxError, w1)
           | Some result \<Rightarrow> (check_result result, w1)))"

text \<open>
  The whole function: the \<open>catch\<close> logs what was thrown and throws the fixed error.
  The cast \<open>result as DetectedFood\<close> has no effect at run time: the parsed value is
  returned as it is.
\<close>

definition estimateNutritionFromImage ::
  "endpoint \<Rightarrow> json_parse \<Rightarrow> string \<Rightarrow> world \<Rightarrow> (js_error + jsval) \<times> world" where
  "estimateNutritionFromImage ep parse base64Image w =
     (case estimate_try ep parse base64Image w of
        (Inr result, w1) \<Rightarrow> (Inr result, w1)
      | (Inl e, w1) \<Rightarrow>
          (Inl (Error (JString failed_to_analyze)), console_error ''Gemini API error:'' e w1))"

section \<open>getDailyTip\<close>

definition tip_fallback :: string where
  "tip_fallback = ''Stay hydrated by drinking plenty of water throughout the day!''"

definition getDailyTip :: "endpoint \<Rightarrow> world \<Rightarrow> (js_error + string) \<times> world" where
  "getDailyTip ep w =
     (case generateContent ep tip_request w of
        (Inr resp, w1) \<Rightarrow> (Inr (response_text resp), w1)
      | (Inl e, w1) \<Rightarrow>
          (Inr tip_fallback, console_error ''Gemini tip generation error:'' e w1))"

section \<open>Concrete endpoints and parsed texts for the examples\<close>

definition w0 :: world where
  "w0 = \<lparr>requests = [], console = []\<rparr>"

definition ep_down :: endpoint where
  "ep_down hist req = Inl (Rejected ''fetch failed'')"

definition ep_text :: "string \<Rightarrow> endpoint" where
  "ep_text t hist req = Inr \<lparr>response_text = t\<rparr>"

text \<open>
  A finite table of \<open>JSON.parse\<close>: the value it returns on each response text used in the
  examples. Any text outside the table is taken as not JSON, which holds of the one such
  text the examples use (\<open>Sorry, I cannot help with that.\<close>).
\<close>

definition no_food :: jsval where
  "no_food = JObject [(''error'', JString ''No food detected in the image.'')]"

definition banana :: jsval where
  "banana = JObject [(''name'', JString ''Banana''), (''portionSize'', JString ''1 unit'')]"

definition flan :: jsval where
  "flan = JObject [(''name'', JString ''Flan con dulce de leche''),
                   (''portionSize'', JString ''1 slice''),
                   (''nutrition'', JObject [])]"

definition milanesa :: jsval where
  "milanesa = JObject [(''name'', JString ''Milanesa de carne''),
                       (''nutrition'', JObject [(''calories'', JNumber (- 5))])]"

definition asado :: jsval where
  "asado = JObject [(''error'', JNull),
                    (''name'', JString ''Asado''),
                    (''portionSize'', JString ''1 plate''),
                    (''nutrition'', JObject [(''calories'', JNumber 650), (''protein'', JNumber 48),
                                             (''carbs'', JNumber 0), (''fat'', JNumber 50)]),
                    (''confidence'', JNumber 0.5)]"

definition parse_examples :: json_parse where
  \<open>parse_examples =
     map_of
       [(''{"error":"No food detected in the image."}'', no_food),
        (''{}'', JObject []),
        (''{"name":"Banana","portionSize":"1 unit"}'', banana),
        (''{"name":"Flan con dulce de leche","portionSize":"1 slice","nutrition":{}}'', flan),
        (''{"name":"Milanesa de carne","nutrition":{"calories":-5}}'', milanesa),
        (''{"error":null,"name":"Asado","portionSize":"1 plate","nutrition":{"calories":650,"protein":48,"carbs":0,"fat":50},"confidence":0.5}'',
         asado)]\<close>

section \<open>Basic facts\<close>

lemma estimate_try_rejected:
  "ep (requests w) (food_request img) = Inl e \<Longrightarrow>
   estimate_try ep parse img w = (Inl e, w\<lparr>requests := requests w @ [food_request img]\<rparr>)"
  by (simp add: estimate_try_def generateContent_def)

lemma estimate_try_responded:
  "ep (requests w) (food_request img) = Inr resp \<Longrightarrow>
   estimate_try ep parse img w =
     ((case parse (trim (response_text resp)) of
         None \<Rightarrow> Inl SyntaxError
       | Some result \<Rightarrow> check_result result),
      w\<lparr>requests := requests w @ [food_request img]\<rparr>)"
  by (simp add: estimate_try_def generateContent_def split: option.splits)

lemma check_result_Inr_iff:
  "check_result r = Inr r' \<longleftrightarrow>
     r' = r \<and>
     (\<exists>err name nutrition.
        get_prop r ''error'' = Inr err \<and> \<not> truthy err \<and>
        get_prop r ''name'' = Inr name \<and> truthy name \<and>
        get_prop r ''nutrition'' = Inr nutrition \<and> truthy nutrition)"
  by (auto simp: check_result_def split: sum.splits if_splits)

lemma check_result_same: "check_result r = Inr r' \<Longrightarrow> r' = r"
  by (simp add: check_result_Inr_iff)

lemma estimate_fst:
  "fst (estimateNutritionFromImage ep parse img w) =
     (case ep (requests w) (food_request img) of
        Inl e \<Rightarrow> Inl (Error (JString failed_to_analyze))
      | Inr resp \<Rightarrow>
          (case parse (trim (response_text resp)) of
             None \<Rightarrow> Inl (Error (JString failed_to_analyze))
           | Some r \<Rightarrow>
               (case check_result r of
                  Inl e \<Rightarrow> Inl (Error (JString failed_to_analyze))
                | Inr r' \<Rightarrow> Inr r')))"
  by (simp add: estimateNutritionFromImage_def estimate_try_rejected estimate_try_responded
           split: sum.splits option.splits)

lemma estimate_success_iff:
  "fst (estimateNutritionFromImage ep parse img w) = Inr result \<longleftrightarrow>
     (\<exists>resp. ep (requests w) (food_request img) = Inr resp \<and>
             parse (trim (response_text resp)) = Some result \<and>
             check_result result = Inr result)"
  by (auto simp: estimate_fst split: sum.splits option.splits dest: check_result_same)

lemma estimate_failure:
  "fst (estimateNutritionFromImage ep parse img w) = Inl e \<Longrightarrow>
   e = Error (JString failed_to_analyze)"
  by (auto simp: estimate_fst split: sum.splits option.splits)

lemma get_prop_Inl: "get_prop r k = Inl e \<Longrightarrow> get_prop r k' = Inl e"
  by (cases r) auto

lemma estimate_try_world:
  "snd (estimate_try ep parse img w) = w\<lparr>requests := requests w @ [food_request img]\<rparr>"
  by (cases "ep (requests w) (food_request img)")
     (simp_all add: estimate_try_rejected estimate_try_responded)

section \<open>Transport failures\<close>

text \<open>
  C3. When the remote call is rejected, \<open>estimateNutritionFromImage\<close> fails with the
  "Failed to analyze image ..." error, while \<open>getDailyTip\<close> returns the string
  "Stay hydrated by drinking plenty of water throughout the day!"; and \<open>getDailyTip\<close>
  returns a string whatever the endpoint does.
\<close>

theorem transport_failure:
  "(ep (requests w) (food_request img) = Inl e \<longrightarrow>
      fst (estimateNutritionFromImage ep parse img w) =
        Inl (Error (JString
          ''Failed to analyze image. The food might not be recognized or there was a network issue.'')))
   \<and> (ep (requests w) tip_request = Inl e \<longrightarrow>
        fst (getDailyTip ep w) =
          Inr ''Stay hydrated by drinking plenty of water throughout the day!'')
   \<and> (\<exists>s. fst (getDailyTip ep w) = Inr s)"
proof (intro conjI impI)
  assume "ep (requests w) (food_request img) = Inl e"
  then show "fst (estimateNutritionFromImage ep parse img w) =
        Inl (Error (JString
          ''Failed to analyze image. The food might not be recognized or there was a network issue.''))"
    by (simp add: estimateNutritionFromImage_def estimate_try_rejected failed_to_analyze_def)
next
  assume "ep (requests w) tip_request = Inl e"
  then show "fst (getDailyTip ep w) =
          Inr ''Stay hydrated by drinking plenty of water throughout the day!''"
    by (simp add: getDailyTip_def generateContent_def tip_fallback_def)
next
  show "\<exists>s. fst (getDailyTip ep w) = Inr s"
    by (cases "ep (requests w) tip_request")
       (simp_all add: getDailyTip_def generateContent_def)
qed

theorem transport_failure_witness:
  "fst (estimateNutritionFromImage ep_down (\<lambda>s. None) ''aGVsbG8='' w0) =
     Inl (Error (JString
       ''Failed to analyze image. The food might not be recognized or there was a network issue.''))
   \<and> fst (getDailyTip ep_down w0) =
       Inr ''Stay hydrated by drinking plenty of water throughout the day!''"
  using transport_failure [of ep_down w0 "''aGVsbG8=''" "Rejected ''fetch failed''" "\<lambda>s. None"]
  by (simp add: ep_down_def)

section \<open>A response that carries an error field\<close>

text \<open>
  C1. When the parsed response is an object whose \<open>error\<close> field is truthy (a non-empty
  string is), \<open>estimateNutritionFromImage\<close> fails: the caller receives the fixed
  "Failed to analyze image ..." error, and the error built from the field's value is what
  \<open>console.error\<close> is given.
\<close>

theorem error_field_fails:
  assumes "ep (requests w) (food_request img) = Inr resp"
    and "parse (trim (response_text resp)) = Some (JObject props)"
    and "map_of props ''error'' = Some err"
    and "truthy err"
  shows "estimateNutritionFromImage ep parse img w =
           (Inl (Error (JString
              ''Failed to analyze image. The food might not be recognized or there was a network issue.'')),
            w\<lparr>requests := requests w @ [food_request img],
              console := console w @ [(''Gemini API error:'', Error err)]\<rparr>)"
proof -
  have "check_result (JObject props) = Inl (Error err)"
    using assms(3,4) by (simp add: check_result_def)
  with assms(1,2) show ?thesis
    by (simp add: estimateNutritionFromImage_def estimate_try_responded console_error_def
                  failed_to_analyze_def)
qed

theorem error_field_fails_witness:
  \<open>estimateNutritionFromImage (ep_text ''{"error":"No food detected in the image."}'')
       parse_examples ''aGVsbG8='' w0 =
     (Inl (Error (JString
        ''Failed to analyze image. The food might not be recognized or there was a network issue.'')),
      \<lparr>requests = [food_request ''aGVsbG8=''],
       console = [(''Gemini API error:'', Error (JString ''No food detected in the image.''))]\<rparr>)\<close>
  using error_field_fails
    [of \<open>ep_text ''{"error":"No food detected in the image."}''\<close> w0 "''aGVsbG8=''"
        \<open>\<lparr>response_text = ''{"error":"No food detected in the image."}''\<rparr>\<close>
        parse_examples "[(''error'', JString ''No food detected in the image.'')]"
        "JString ''No food detected in the image.''"]
  by (simp add: ep_text_def parse_examples_def no_food_def w0_def trim_def is_ws_def)

section \<open>A response without name or nutrition\<close>

text \<open>
  C2, as the claim states it, fails: on the response text \<open>{}\<close>, which has neither
  \<open>name\<close> nor \<open>nutrition\<close>, the error the caller receives is not the
  "Could not identify the food ..." one.
\<close>

theorem missing_field_counterexample:
  "fst (estimateNutritionFromImage (ep_text ''{}'') parse_examples ''aGVsbG8='' w0) =
     Inl (Error (JString
       ''Failed to analyze image. The food might not be recognized or there was a network issue.''))
   \<and> fst (estimateNutritionFromImage (ep_text ''{}'') parse_examples ''aGVsbG8='' w0) \<noteq>
     Inl (Error (JString ''Could not identify the food. Please try another photo.''))"
  by (simp add: estimate_fst ep_text_def parse_examples_def trim_def is_ws_def check_result_def
                failed_to_analyze_def could_not_identify_def)

text \<open>
  C2, amended. When reading \<open>name\<close> or \<open>nutrition\<close> from the parsed response gives
  \<open>undefined\<close>, \<open>estimateNutritionFromImage\<close> fails and the caller receives the fixed
  "Failed to analyze image ..." error; the "Could not identify the food ..." error goes
  to \<open>console.error\<close> only (when the \<open>error\<close> field is falsy).
\<close>

theorem missing_field_fails:
  assumes "ep (requests w) (food_request img) = Inr resp"
    and "parse (trim (response_text resp)) = Some result"
    and "get_prop result ''name'' = Inr JUndefined \<or> get_prop result ''nutrition'' = Inr JUndefined"
  shows "fst (estimateNutritionFromImage ep parse img w) =
           Inl (Error (JString
             ''Failed to analyze image. The food might not be recognized or there was a network issue.''))
         \<and> (get_prop result ''error'' = Inr err \<and> \<not> truthy err \<longrightarrow>
              console (snd (estimateNutritionFromImage ep parse img w)) =
                console w @
                  [(''Gemini API error:'',
                    Error (JString ''Could not identify the food. Please try another photo.''))])"
proof
  from assms(3) have no: "\<forall>r. check_result result \<noteq> Inr r"
    by (auto simp: check_result_Inr_iff)
  then obtain e where "check_result result = Inl e"
    by (cases "check_result result") auto
  with assms(1,2) show "fst (estimateNutritionFromImage ep parse img w) =
           Inl (Error (JString
             ''Failed to analyze image. The food might not be recognized or there was a network issue.''))"
    by (simp add: estimate_fst failed_to_analyze_def)
  show "get_prop result ''error'' = Inr err \<and> \<not> truthy err \<longrightarrow>
          console (snd (estimateNutritionFromImage ep parse img w)) =
            console w @
              [(''Gemini API error:'',
                Error (JString ''Could not identify the food. Please try another photo.''))]"
  proof
    assume e: "get_prop result ''error'' = Inr err \<and> \<not> truthy err"
    with assms(3) have "check_result result = Inl (Error (JString could_not_identify))"
      by (auto simp: check_result_def split: sum.splits
               dest: get_prop_Inl [where k' = "''error''"])
    with assms(1,2) show "console (snd (estimateNutritionFromImage ep parse img w)) =
            console w @
              [(''Gemini API error:'',
                Error (JString ''Could not identify the food. Please try another photo.''))]"
      by (simp add: estimateNutritionFromImage_def estimate_try_responded console_error_def
                    could_not_identify_def)
  qed
qed

theorem missing_field_fails_witness:
  \<open>fst (estimateNutritionFromImage (ep_text ''{"name":"Banana","portionSize":"1 unit"}'')
          parse_examples ''aGVsbG8='' w0) =
     Inl (Error (JString
       ''Failed to analyze image. The food might not be recognized or there was a network issue.''))
   \<and> console (snd (estimateNutritionFromImage
                     (ep_text ''{"name":"Banana","portionSize":"1 unit"}'')
                     parse_examples ''aGVsbG8='' w0)) =
       [(''Gemini API error:'',
         Error (JString ''Could not identify the food. Please try another photo.''))]\<close>
  using missing_field_fails
    [where ep = \<open>ep_text ''{"name":"Banana","portionSize":"1 unit"}''\<close> and w = w0
       and img = "''aGVsbG8=''" and parse = parse_examples and result = banana
       and resp = \<open>\<lparr>response_text = ''{"name":"Banana","portionSize":"1 unit"}''\<rparr>\<close>
       and err = JUndefined]
  by (simp add: ep_text_def parse_examples_def banana_def w0_def trim_def is_ws_def)

section \<open>What a successful result holds\<close>

text \<open>
  C4. A result that \<open>estimateNutritionFromImage\<close> returns is an object with a \<open>name\<close>
  that is present, not null and not the empty string, and a \<open>nutrition\<close> that is present
  and not null; and whenever the parsed response has no truthy \<open>name\<close> or no truthy
  \<open>nutrition\<close>, the call fails.
\<close>

theorem success_has_name_and_nutrition:
  "(fst (estimateNutritionFromImage ep parse img w) = Inr result \<longrightarrow>
      (\<exists>props name nutrition.
         result = JObject props \<and>
         map_of props ''name'' = Some name \<and> truthy name \<and>
         name \<noteq> JString [] \<and> name \<noteq> JNull \<and> name \<noteq> JUndefined \<and>
         map_of props ''nutrition'' = Some nutrition \<and> truthy nutrition \<and>
         nutrition \<noteq> JNull \<and> nutrition \<noteq> JUndefined))
   \<and> (ep (requests w) (food_request img) = Inr resp \<and>
        parse (trim (response_text resp)) = Some parsed \<and>
        (\<not> (\<exists>name. get_prop parsed ''name'' = Inr name \<and> truthy name) \<or>
         \<not> (\<exists>nutrition. get_prop parsed ''nutrition'' = Inr nutrition \<and> truthy nutrition)) \<longrightarrow>
        (\<exists>e. fst (estimateNutritionFromImage ep parse img w) = Inl e))"
proof (intro conjI impI)
  assume "fst (estimateNutritionFromImage ep parse img w) = Inr result"
  then have "check_result result = Inr result"
    by (auto simp: estimate_success_iff)
  then obtain name nutrition where
    n: "get_prop result ''name'' = Inr name" "truthy name"
       "get_prop result ''nutrition'' = Inr nutrition" "truthy nutrition"
    by (auto simp: check_result_Inr_iff)
  from n(1,2) obtain props where r: "result = JObject props"
    by (cases result) auto
  from n r have "map_of props ''name'' = Some name" "map_of props ''nutrition'' = Some nutrition"
    by (auto split: option.splits)
  with n(2,4) r show "\<exists>props name nutrition.
         result = JObject props \<and>
         map_of props ''name'' = Some name \<and> truthy name \<and>
         name \<noteq> JString [] \<and> name \<noteq> JNull \<and> name \<noteq> JUndefined \<and>
         map_of props ''nutrition'' = Some nutrition \<and> truthy nutrition \<and>
         nutrition \<noteq> JNull \<and> nutrition \<noteq> JUndefined"
    by auto
next
  assume a: "ep (requests w) (food_request img) = Inr resp \<and>
        parse (trim (response_text resp)) = Some parsed \<and>
        (\<not> (\<exists>name. get_prop parsed ''name'' = Inr name \<and> truthy name) \<or>
         \<not> (\<exists>nutrition. get_prop parsed ''nutrition'' = Inr nutrition \<and> truthy nutrition))"
  then have "\<forall>r. check_result parsed \<noteq> Inr r"
    by (auto simp: check_result_Inr_iff)
  then obtain e where "check_result parsed = Inl e"
    by (cases "check_result parsed") auto
  with a show "\<exists>e. fst (estimateNutritionFromImage ep parse img w) = Inl e"
    by (simp add: estimate_fst)
qed

theorem success_has_name_and_nutrition_witness:
  \<open>(\<exists>props name nutrition.
      asado = JObject props \<and>
      map_of props ''name'' = Some name \<and> truthy name \<and>
      name \<noteq> JString [] \<and> name \<noteq> JNull \<and> name \<noteq> JUndefined \<and>
      map_of props ''nutrition'' = Some nutrition \<and> truthy nutrition \<and>
      nutrition \<noteq> JNull \<and> nutrition \<noteq> JUndefined)
   \<and> (\<exists>e. fst (estimateNutritionFromImage
                  (ep_text ''{"name":"Banana","portionSize":"1 unit"}'')
                  parse_examples ''aGVsbG8='' w0) = Inl e)\<close>
proof
  have \<open>fst (estimateNutritionFromImage
               (ep_text ''{"error":null,"name":"Asado","portionSize":"1 plate","nutrition":{"calories":650,"protein":48,"carbs":0,"fat":50},"confidence":0.5}'')
               parse_examples ''aGVsbG8='' w0) = Inr asado\<close>
    by (simp add: estimate_fst ep_text_def parse_examples_def asado_def trim_def is_ws_def
                  check_result_def)
  with success_has_name_and_nutrition
    [where ep = \<open>ep_text ''{"error":null,"name":"Asado","portionSize":"1 plate","nutrition":{"calories":650,"protein":48,"carbs":0,"fat":50},"confidence":0.5}''\<close>
       and parse = parse_examples and img = "''aGVsbG8=''" and w = w0 and result = asado]
  show "\<exists>props name nutrition.
      asado = JObject props \<and>
      map_of props ''name'' = Some name \<and> truthy name \<and>
      name \<noteq> JString [] \<and> name \<noteq> JNull \<and> name \<noteq> JUndefined \<and>
      map_of props ''nutrition'' = Some nutrition \<and> truthy nutrition \<and>
      nutrition \<noteq> JNull \<and> nutrition \<noteq> JUndefined"
    by blast
next
  have \<open>ep_text ''{"name":"Banana","portionSize":"1 unit"}'' (requests w0)
          (food_request ''aGVsbG8='') =
          Inr \<lparr>response_text = ''{"name":"Banana","portionSize":"1 unit"}''\<rparr>\<close>
    by (simp add: ep_text_def)
  moreover have
    \<open>parse_examples
       (trim (response_text \<lparr>response_text = ''{"name":"Banana","portionSize":"1 unit"}''\<rparr>)) =
     Some banana\<close>
    by (simp add: parse_examples_def trim_def is_ws_def)
  moreover have "\<not> (\<exists>nutrition. get_prop banana ''nutrition'' = Inr nutrition \<and> truthy nutrition)"
    by (simp add: banana_def)
  ultimately show \<open>\<exists>e. fst (estimateNutritionFromImage
                  (ep_text ''{"name":"Banana","portionSize":"1 unit"}'')
                  parse_examples ''aGVsbG8='' w0) = Inl e\<close>
    using success_has_name_and_nutrition
      [where ep = \<open>ep_text ''{"name":"Banana","portionSize":"1 unit"}''\<close>
         and parse = parse_examples and img = "''aGVsbG8=''" and w = w0 and parsed = banana
         and resp = \<open>\<lparr>response_text = ''{"name":"Banana","portionSize":"1 unit"}''\<rparr>\<close>]
    by blast
qed

text \<open>
  C5, as the claim states it, fails: the response below is returned as a successful result
  although its \<open>nutrition\<close> has none of \<open>calories\<close>, \<open>protein\<close>, \<open>carbs\<close>, \<open>fat\<close>.
\<close>

theorem nutrition_fields_counterexample:
  \<open>fst (estimateNutritionFromImage
          (ep_text ''{"name":"Flan con dulce de leche","portionSize":"1 slice","nutrition":{}}'')
          parse_examples ''aGVsbG8='' w0) =
     Inr (JObject [(''name'', JString ''Flan con dulce de leche''),
                   (''portionSize'', JString ''1 slice''),
                   (''nutrition'', JObject [])])
   \<and> get_prop (JObject []) ''calories'' = Inr JUndefined
   \<and> get_prop (JObject []) ''protein'' = Inr JUndefined
   \<and> get_prop (JObject []) ''carbs'' = Inr JUndefined
   \<and> get_prop (JObject []) ''fat'' = Inr JUndefined\<close>
  by (simp add: estimate_fst ep_text_def parse_examples_def flan_def trim_def is_ws_def
                check_result_def)

text \<open>
  C5, amended. A result that \<open>estimateNutritionFromImage\<close> returns has a \<open>nutrition\<close>
  value that is truthy and is the one of the parsed response; its fields are not looked at.
\<close>

theorem nutrition_passed_through:
  assumes "fst (estimateNutritionFromImage ep parse img w) = Inr result"
  shows "\<exists>resp parsed nutrition.
           ep (requests w) (food_request img) = Inr resp \<and>
           parse (trim (response_text resp)) = Some parsed \<and>
           get_prop parsed ''nutrition'' = Inr nutrition \<and>
           get_prop result ''nutrition'' = Inr nutrition \<and>
           truthy nutrition"
  using assms by (auto simp: estimate_success_iff check_result_Inr_iff)

theorem nutrition_passed_through_witness:
  \<open>\<exists>resp parsed nutrition.
     ep_text ''{"name":"Milanesa de carne","nutrition":{"calories":-5}}'' (requests w0)
       (food_request ''aGVsbG8='') = Inr resp \<and>
     parse_examples (trim (response_text resp)) = Some parsed \<and>
     get_prop parsed ''nutrition'' = Inr nutrition \<and>
     get_prop milanesa ''nutrition'' = Inr nutrition \<and>
     truthy nutrition\<close>
proof -
  have \<open>fst (estimateNutritionFromImage
               (ep_text ''{"name":"Milanesa de carne","nutrition":{"calories":-5}}'')
               parse_examples ''aGVsbG8='' w0) = Inr milanesa\<close>
    by (simp add: estimate_fst ep_text_def parse_examples_def milanesa_def trim_def is_ws_def
                  check_result_def)
  then show ?thesis by (rule nutrition_passed_through)
qed

section \<open>One error for every failure\<close>

text \<open>
  C6. Whenever \<open>estimateNutritionFromImage\<close> fails, the error the caller receives is the
  fixed "Failed to analyze image ..." one, never the "Could not identify the food ..." one;
  and it does fail so on a rejected remote call, on a text that is not JSON, on a truthy
  \<open>error\<close> field and on a falsy \<open>name\<close> or \<open>nutrition\<close>.
\<close>

theorem every_failure_is_generic:
  "(fst (estimateNutritionFromImage ep parse img w) = Inl e \<longrightarrow>
      e = Error (JString
            ''Failed to analyze image. The food might not be recognized or there was a network issue.'') \<and>
      e \<noteq> Error (JString ''Could not identify the food. Please try another photo.''))
   \<and> ((\<exists>x. ep (requests w) (food_request img) = Inl x) \<or>
        (\<exists>resp. ep (requests w) (food_request img) = Inr resp \<and>
           (parse (trim (response_text resp)) = None \<or>
            (\<exists>result. parse (trim (response_text resp)) = Some result \<and>
               ((\<exists>err. get_prop result ''error'' = Inr err \<and> truthy err) \<or>
                (\<exists>name. get_prop result ''name'' = Inr name \<and> \<not> truthy name) \<or>
                (\<exists>nutrition. get_prop result ''nutrition'' = Inr nutrition \<and> \<not> truthy nutrition))))) \<longrightarrow>
       fst (estimateNutritionFromImage ep parse img w) =
         Inl (Error (JString
           ''Failed to analyze image. The food might not be recognized or there was a network issue.'')))"
proof (intro conjI impI)
  assume "fst (estimateNutritionFromImage ep parse img w) = Inl e"
  then show "e = Error (JString
            ''Failed to analyze image. The food might not be recognized or there was a network issue.'')"
    by (auto dest: estimate_failure simp: failed_to_analyze_def)
  then show "e \<noteq> Error (JString ''Could not identify the food. Please try another photo.'')"
    by simp
next
  assume a: "(\<exists>x. ep (requests w) (food_request img) = Inl x) \<or>
        (\<exists>resp. ep (requests w) (food_request img) = Inr resp \<and>
           (parse (trim (response_text resp)) = None \<or>
            (\<exists>result. parse (trim (response_text resp)) = Some result \<and>
               ((\<exists>err. get_prop result ''error'' = Inr err \<and> truthy err) \<or>
                (\<exists>name. get_prop result ''name'' = Inr name \<and> \<not> truthy name) \<or>
                (\<exists>nutrition. get_prop result ''nutrition'' = Inr nutrition \<and> \<not> truthy nutrition)))))"
  have "\<not> (\<exists>r. fst (estimateNutritionFromImage ep parse img w) = Inr r)"
  proof
    assume "\<exists>r. fst (estimateNutritionFromImage ep parse img w) = Inr r"
    then obtain r resp where r: "ep (requests w) (food_request img) = Inr resp"
      "parse (trim (response_text resp)) = Some r" "check_result r = Inr r"
      unfolding estimate_success_iff by blast
    from r(3) obtain err name nutrition where
      "get_prop r ''error'' = Inr err" "\<not> truthy err"
      "get_prop r ''name'' = Inr name" "truthy name"
      "get_prop r ''nutrition'' = Inr nutrition" "truthy nutrition"
      unfolding check_result_Inr_iff by blast
    with a r(1,2) show False by auto
  qed
  then obtain e where "fst (estimateNutritionFromImage ep parse img w) = Inl e"
    by (cases "fst (estimateNutritionFromImage ep parse img w)") auto
  then show "fst (estimateNutritionFromImage ep parse img w) =
         Inl (Error (JString
           ''Failed to analyze image. The food might not be recognized or there was a network issue.''))"
    by (auto dest: estimate_failure simp: failed_to_analyze_def)
qed

theorem every_failure_is_generic_witness:
  "fst (estimateNutritionFromImage (ep_text ''Sorry, I cannot help with that.'')
          parse_examples ''aGVsbG8='' w0) =
     Inl (Error (JString
       ''Failed to analyze image. The food might not be recognized or there was a network issue.''))"
proof -
  have "parse_examples (trim ''Sorry, I cannot help with that.'') = None"
    by (simp add: parse_examples_def trim_def is_ws_def)
  then have "\<exists>resp. ep_text ''Sorry, I cannot help with that.'' (requests w0)
                 (food_request ''aGVsbG8='') = Inr resp \<and>
               parse_examples (trim (response_text resp)) = None"
    by (simp add: ep_text_def)
  with every_failure_is_generic
    [where ep = "ep_text ''Sorry, I cannot help with that.''" and w = w0
       and img = "''aGVsbG8=''" and parse = parse_examples]
  show ?thesis by blast
qed

section \<open>When the call succeeds\<close>

text \<open>
  C7. \<open>estimateNutritionFromImage\<close> returns \<open>result\<close> exactly when the remote call
  responds, the trimmed response text parses to \<open>result\<close>, and \<open>result\<close> has a falsy
  \<open>error\<close>, a truthy \<open>name\<close> and a truthy \<open>nutrition\<close>. Nothing else is checked: the
  example after it has a negative \<open>calories\<close>, no other nutrition field and no
  \<open>portionSize\<close>, and is returned.
\<close>

theorem success_iff:
  "fst (estimateNutritionFromImage ep parse img w) = Inr result \<longleftrightarrow>
   (\<exists>resp err name nutrition.
      ep (requests w) (food_request img) = Inr resp \<and>
      parse (trim (response_text resp)) = Some result \<and>
      get_prop result ''error'' = Inr err \<and> \<not> truthy err \<and>
      get_prop result ''name'' = Inr name \<and> truthy name \<and>
      get_prop result ''nutrition'' = Inr nutrition \<and> truthy nutrition)"
  unfolding estimate_success_iff check_result_Inr_iff by blast

theorem success_iff_witness:
  \<open>fst (estimateNutritionFromImage
          (ep_text ''{"name":"Milanesa de carne","nutrition":{"calories":-5}}'')
          parse_examples ''aGVsbG8='' w0) =
     Inr (JObject [(''name'', JString ''Milanesa de carne''),
                   (''nutrition'', JObject [(''calories'', JNumber (- 5))])])\<close>
proof -
  have \<open>parse_examples (trim ''{"name":"Milanesa de carne","nutrition":{"calories":-5}}'') =
          Some milanesa\<close>
    by (simp add: parse_examples_def trim_def is_ws_def)
  moreover have "get_prop milanesa ''error'' = Inr JUndefined"
    "get_prop milanesa ''name'' = Inr (JString ''Milanesa de carne'')"
    "get_prop milanesa ''nutrition'' = Inr (JObject [(''calories'', JNumber (- 5))])"
    by (simp_all add: milanesa_def)
  ultimately have
    \<open>fst (estimateNutritionFromImage
            (ep_text ''{"name":"Milanesa de carne","nutrition":{"calories":-5}}'')
            parse_examples ''aGVsbG8='' w0) = Inr milanesa\<close>
    unfolding success_iff by (simp add: ep_text_def)
  then show ?thesis by (simp add: milanesa_def)
qed

section \<open>Requests issued\<close>

text \<open>
  C9. One call of \<open>estimateNutritionFromImage\<close>, and one call of \<open>getDailyTip\<close>, adds
  exactly one request to those the endpoint has received, whatever the endpoint answers.
\<close>

theorem one_request_per_call:
  "requests (snd (estimateNutritionFromImage ep parse img w)) = requests w @ [food_request img]
   \<and> requests (snd (getDailyTip ep w)) = requests w @ [tip_request]"
proof
  show "requests (snd (estimateNutritionFromImage ep parse img w)) =
          requests w @ [food_request img]"
    by (cases "ep (requests w) (food_request img)")
       (simp_all add: estimateNutritionFromImage_def estimate_try_rejected
          estimate_try_responded console_error_def split: sum.splits option.splits)
  show "requests (snd (getDailyTip ep w)) = requests w @ [tip_request]"
    by (cases "ep (requests w) tip_request")
       (simp_all add: getDailyTip_def generateContent_def console_error_def)
qed

section \<open>Results are passed through\<close>

text \<open>
  C10. What \<open>estimateNutritionFromImage\<close> returns is the value \<open>JSON.parse\<close> gave for
  the trimmed response text, extra fields included; what \<open>getDailyTip\<close> returns when
  the endpoint responds is the response text as it is.
\<close>

theorem success_returns_parsed_value:
  "(fst (estimateNutritionFromImage ep parse img w) = Inr result \<longrightarrow>
      (\<exists>resp. ep (requests w) (food_request img) = Inr resp \<and>
              parse (trim (response_text resp)) = Some result))
   \<and> (ep (requests w) tip_request = Inr tip \<longrightarrow>
        fst (getDailyTip ep w) = Inr (response_text tip))"
  by (auto simp: estimate_success_iff getDailyTip_def generateContent_def)

theorem success_returns_parsed_value_witness:
  \<open>fst (estimateNutritionFromImage
          (ep_text (CHR 0x20 # ''{"error":null,"name":"Asado","portionSize":"1 plate","nutrition":{"calories":650,"protein":48,"carbs":0,"fat":50},"confidence":0.5}'' @ [CHR 0x0A]))
          parse_examples ''aGVsbG8='' w0) =
     Inr (JObject [(''error'', JNull),
                   (''name'', JString ''Asado''),
                   (''portionSize'', JString ''1 plate''),
                   (''nutrition'', JObject [(''calories'', JNumber 650), (''protein'', JNumber 48),
                                            (''carbs'', JNumber 0), (''fat'', JNumber 50)]),
                   (''confidence'', JNumber 0.5)])
   \<and> parse_examples
        (trim (CHR 0x20 # ''{"error":null,"name":"Asado","portionSize":"1 plate","nutrition":{"calories":650,"protein":48,"carbs":0,"fat":50},"confidence":0.5}'' @ [CHR 0x0A])) =
       Some (JObject [(''error'', JNull),
                   (''name'', JString ''Asado''),
                   (''portionSize'', JString ''1 plate''),
                   (''nutrition'', JObject [(''calories'', JNumber 650), (''protein'', JNumber 48),
                                            (''carbs'', JNumber 0), (''fat'', JNumber 50)]),
                   (''confidence'', JNumber 0.5)])
   \<and> fst (getDailyTip (ep_text '' Un mate amargo va bien con la merienda.  '') w0) =
       Inr '' Un mate amargo va bien con la merienda.  ''\<close>
proof -
  let ?t = \<open>CHR 0x20 # ''{"error":null,"name":"Asado","portionSize":"1 plate","nutrition":{"calories":650,"protein":48,"carbs":0,"fat":50},"confidence":0.5}'' @ [CHR 0x0A]\<close>
  have ok: "fst (estimateNutritionFromImage (ep_text ?t) parse_examples ''aGVsbG8='' w0) =
              Inr asado"
    by (simp add: estimate_fst ep_text_def parse_examples_def asado_def trim_def is_ws_def
                  check_result_def)
  have tip: "ep_text '' Un mate amargo va bien con la merienda.  '' (requests w0) tip_request =
               Inr \<lparr>response_text = '' Un mate amargo va bien con la merienda.  ''\<rparr>"
    by (simp add: ep_text_def)
  from success_returns_parsed_value
         [where ep = "ep_text ?t" and parse = parse_examples and img = "''aGVsbG8=''"
            and w = w0 and result = asado, THEN conjunct1, rule_format, OF ok]
  have "parse_examples (trim ?t) = Some asado"
    by (simp add: ep_text_def)
  moreover from success_returns_parsed_value
         [where ep = "ep_text '' Un mate amargo va bien con la merienda.  ''" and w = w0
            and tip = "\<lparr>response_text = '' Un mate amargo va bien con la merienda.  ''\<rparr>",
          THEN conjunct2, rule_format, OF tip]
  have "fst (getDailyTip (ep_text '' Un mate amargo va bien con la merienda.  '') w0) =
          Inr '' Un mate amargo va bien con la merienda.  ''"
    by simp
  ultimately show ?thesis using ok by (simp add: asado_def)
qed

end
